theory Spec2Isabelle
  imports Main "HOL-Library.Word" "HOL-Library.Sublist"
begin

section \<open>JavaScript strings\<close>

text \<open>
  A JavaScript string is a sequence of UTF-16 code units. \<open>js\<close> writes an ASCII literal of
  the source as such a sequence.
\<close>

type_synonym jsstring = "16 word list"

definition js :: "string \<Rightarrow> jsstring" where
  "js s = map of_char s"

text \<open>
  \<open>String.prototype.trim\<close> removes the ECMAScript WhiteSpace and LineTerminator code points
  from both ends: TAB, LF, VT, FF, CR, SP, NBSP, U+1680, U+2000..U+200A, U+2028, U+2029,
  U+202F, U+205F, U+3000 and U+FEFF.
\<close>

definition isWhiteSpace :: "16 word \<Rightarrow> bool" where
  "isWhiteSpace c \<longleftrightarrow>
     c \<in> {9, 10, 11, 12, 13, 32, 160, 5760, 8232, 8233, 8239, 8287, 12288, 65279}
     \<or> (8192 \<le> c \<and> c \<le> 8202)"

definition trim :: "jsstring \<Rightarrow> jsstring" where
  "trim s = rev (dropWhile isWhiteSpace (rev (dropWhile isWhiteSpace s)))"

text \<open>\<open>!s\<close> on a string: the empty string is the only falsy one.\<close>

definition falsy :: "jsstring \<Rightarrow> bool" where
  "falsy s \<longleftrightarrow> s = []"

section \<open>Types the files share\<close>

text \<open>\<open>Date\<close> values are milliseconds since the epoch.\<close>

type_synonym date = int

datatype sender = User | Bot

record button =
  title :: jsstring
  payload :: jsstring

section \<open>The chat slice (chatSlice.ts)\<close>

text \<open>
  The slice's own \<open>Message\<close> and \<open>ChatState\<close> interfaces; their fields are written with
  the record's name in front, as \<open>chat_State.messages\<close>.
\<close>

record 'm chat_Message =
  id' :: jsstring
  "text" :: jsstring
  sender :: sender
  timestamp :: date
  buttons :: "button list option"
  quick_replies :: "button list option"
  suggestions :: "jsstring list option"
  metadata :: "'m option"

record 'm chat_State =
  messages :: "'m chat_Message list"
  isTyping :: bool
  isConnected :: bool
  currentLanguage :: jsstring
  sessionId :: "jsstring option"
  conversationHistory :: "'m chat_Message list"

definition chat_initialState :: "'m chat_State" where
  "chat_initialState =
     \<lparr>chat_State.messages = [], isTyping = False, isConnected = False,
      currentLanguage = js ''en'', sessionId = None, conversationHistory = []\<rparr>"

text \<open>The seven actions of the slice, and the case reducer of each.\<close>

datatype 'm chat_action =
    AddMessage "'m chat_Message"
  | SetTyping bool
  | SetConnected bool
  | SetLanguage jsstring
  | SetSessionId jsstring
  | ClearMessages
  | ClearHistory

fun chat_reducer :: "'m chat_State \<Rightarrow> 'm chat_action \<Rightarrow> 'm chat_State" where
  "chat_reducer state (AddMessage m) =
     state\<lparr>chat_State.messages := chat_State.messages state @ [m],
           conversationHistory := conversationHistory state @ [m]\<rparr>"
| "chat_reducer state (SetTyping b) = state\<lparr>chat_State.isTyping := b\<rparr>"
| "chat_reducer state (SetConnected b) = state\<lparr>chat_State.isConnected := b\<rparr>"
| "chat_reducer state (SetLanguage l) = state\<lparr>chat_State.currentLanguage := l\<rparr>"
| "chat_reducer state (SetSessionId s) = state\<lparr>sessionId := Some s\<rparr>"
| "chat_reducer state ClearMessages = state\<lparr>chat_State.messages := []\<rparr>"
| "chat_reducer state ClearHistory = state\<lparr>conversationHistory := []\<rparr>"

definition chat_dispatch_all :: "'m chat_State \<Rightarrow> 'm chat_action list \<Rightarrow> 'm chat_State" where
  "chat_dispatch_all state acts = foldl chat_reducer state acts"

section \<open>The courses slice (coursesSlice.ts)\<close>

text \<open>
  A \<open>number\<close> that holds a price or a head count is a value of a type \<open>'n\<close> of which only
  the comparison is used; the page counters are integers. \<open>course.level\<close> and
  \<open>course.status\<close> are unions of string literals; \<open>level_string\<close> is the string a level is
  at run time.
\<close>

datatype level = beginner | intermediate | advanced

datatype status = active | inactive | draft

fun level_string :: "level \<Rightarrow> jsstring" where
  "level_string beginner = js ''beginner''"
| "level_string intermediate = js ''intermediate''"
| "level_string advanced = js ''advanced''"

record 'n Course =
  id' :: jsstring
  course_code :: jsstring
  title :: jsstring
  description :: jsstring
  category :: jsstring
  duration :: jsstring
  price :: 'n
  currency :: jsstring
  level :: level
  status :: status
  max_students :: 'n
  enrolled_students :: 'n
  instructor :: jsstring
  start_date :: jsstring
  end_date :: jsstring
  schedule :: jsstring
  created_at :: jsstring
  updated_at :: jsstring

record 'n filters =
  category :: jsstring
  level :: jsstring
  priceRange :: "'n \<times> 'n"
  searchQuery :: jsstring

record pagination =
  page :: int
  limit :: int
  total :: int

record 'n CoursesState =
  courses :: "'n Course list"
  filteredCourses :: "'n Course list"
  selectedCourse :: "'n Course option"
  categories :: "jsstring list"
  isLoading :: bool
  error :: "jsstring option"
  filters :: "'n filters"
  pagination :: pagination

definition courses_initialState :: "('n::{ord,zero,numeral}) CoursesState" where
  "courses_initialState =
     \<lparr>courses = [], filteredCourses = [], selectedCourse = None, categories = [],
      isLoading = False, error = None,
      filters = \<lparr>filters.category = [], level = [], priceRange = (0, 1000), searchQuery = []\<rparr>,
      pagination = \<lparr>page = 1, limit = 12, total = 0\<rparr>\<rparr>"

definition setCourses :: "'n Course list \<Rightarrow> 'n CoursesState \<Rightarrow> 'n CoursesState" where
  "setCourses cs state =
     state\<lparr>courses := cs, filteredCourses := cs, isLoading := False, error := None\<rparr>"

text \<open>\<open>s.includes(q)\<close>: \<open>q\<close> occurs in \<open>s\<close> as a contiguous run of code units.\<close>

definition str_includes :: "jsstring \<Rightarrow> jsstring \<Rightarrow> bool" where
  "str_includes s q \<longleftrightarrow> sublist q s"

text \<open>
  \<open>filterCourses\<close>: the four filters of the reducer one after the other, each on the result
  of the one before. \<open>toLowerCase\<close> is \<open>String.prototype.toLowerCase\<close>.
\<close>

definition filterCourses ::
  "(jsstring \<Rightarrow> jsstring) \<Rightarrow> ('n::ord) CoursesState \<Rightarrow> 'n CoursesState" where
  "filterCourses toLowerCase state =
     (let f = filters state;
          filtered0 = courses state;
          filtered1 =
            (if \<not> falsy (filters.category f)
             then filter (\<lambda>course. Course.category course = filters.category f) filtered0
             else filtered0);
          filtered2 =
            (if \<not> falsy (filters.level f)
             then filter (\<lambda>course. level_string (Course.level course) = filters.level f) filtered1
             else filtered1);
          filtered3 =
            filter (\<lambda>course. price course \<ge> fst (priceRange f)
                            \<and> price course \<le> snd (priceRange f)) filtered2;
          filtered4 =
            (if \<not> falsy (searchQuery f)
             then (let query = toLowerCase (searchQuery f)
                   in filter (\<lambda>course.
                        str_includes (toLowerCase (Course.title course)) query
                        \<or> str_includes (toLowerCase (description course)) query
                        \<or> str_includes (toLowerCase (instructor course)) query) filtered3)
             else filtered3)
      in state\<lparr>filteredCourses := filtered4,
               pagination := (pagination state)\<lparr>total := int (length filtered4)\<rparr>\<rparr>)"

definition clearFilters :: "('n::{ord,zero,numeral}) CoursesState \<Rightarrow> 'n CoursesState" where
  "clearFilters state =
     state\<lparr>filters := \<lparr>filters.category = [], level = [], priceRange = (0, 1000),
                         searchQuery = []\<rparr>,
           filteredCourses := courses state\<rparr>"

section \<open>The chat panel (ChatInterface.tsx)\<close>

subsection \<open>Types\<close>

text \<open>
  The \<open>Message\<close> interface. Optional fields are \<open>option\<close>s; \<open>metadata?: any\<close> is a value
  of an arbitrary type \<open>'m\<close>. The field \<open>id\<close> is written \<open>id'\<close>.
\<close>

record 'm Message =
  id' :: jsstring
  "text" :: jsstring
  sender :: sender
  timestamp :: date
  typing :: "bool option"
  buttons :: "button list option"
  quick_replies :: "button list option"
  suggestions :: "jsstring list option"
  metadata :: "'m option"

record 'm ChatState =
  messages :: "'m Message list"
  isTyping :: bool
  isConnected :: bool
  currentLanguage :: jsstring
  isFullscreen :: bool
  showSettings :: bool

text \<open>
  The payload \<open>data: any\<close> of a server event: the fields the handlers read, each with the
  type of the place it is stored in.
\<close>

record 'm data =
  "text" :: jsstring
  buttons :: "button list option"
  quick_replies :: "button list option"
  suggestions :: "jsstring list option"
  metadata :: "'m option"
  is_typing :: bool
  message_type :: jsstring
  message :: jsstring

text \<open>The object sent with \<open>socket.emit('message', ...)\<close>.\<close>

record emit_metadata =
  timestamp :: jsstring
  language :: jsstring

record outgoing =
  sender :: jsstring
  message :: jsstring
  payload :: "jsstring option"
  metadata :: emit_metadata

text \<open>
  What a handler reads from outside the component when it runs: the string
  \<open>Math.random().toString(36)\<close>, the clock at \<open>new Date()\<close>, the string
  \<open>new Date().toISOString()\<close>, how the \<open>try\<close> block of \<open>startRecording\<close> ends once the
  promise of \<open>getUserMedia\<close> has settled (the recorder is recording, the promise was
  rejected or the constructor failed before the reference was assigned, or \<open>start\<close> failed
  after it), and whether the window has \<open>speechSynthesis\<close>.
\<close>

datatype media_result = Recording | Rejected | StartFailed

record env =
  random_id :: jsstring
  now :: date
  now_iso :: jsstring
  media :: media_result
  speechSynthesis :: bool

datatype toast_kind = Success | Error

text \<open>
  The effects of a handler, in program order: a state setter called with an updater or a
  value, an emit on the socket, a toast, the media recorder, the speech synthesiser. React
  applies the queued updaters in the order of the calls, so the state after a handler is
  the state before it with the effects applied one after the other.
\<close>

datatype 'm effect =
    SetChatState "'m ChatState \<Rightarrow> 'm ChatState"
  | SetInputMessage jsstring
  | SetIsRecording bool
  | Emit jsstring outgoing
  | Toast toast_kind jsstring
  | GetUserMedia
  | StartRecorder
  | StopRecorder
  | Speak jsstring jsstring

text \<open>
  The socket object: where it connects and the listeners registered with \<open>on\<close>. A
  listener is one of the five arrow functions that \<open>initializeConnection\<close> passes to
  \<open>on\<close>, named here after its event; \<open>listener_body\<close> below gives the body of each.
\<close>

datatype listener = OnConnect | OnDisconnect | OnBotResponse | OnTyping | OnSystem

record Socket =
  url :: jsstring
  transports :: "jsstring list"
  listeners :: "(jsstring \<times> listener) list"

text \<open>
  The component: its three pieces of state, the client id chosen at the first render, the
  socket and recorder references, and what it has done to the outside so far (events
  emitted to the server, toasts shown, texts spoken), oldest first.
\<close>

record 'm panel =
  chatState :: "'m ChatState"
  inputMessage :: jsstring
  isRecording :: bool
  clientId :: jsstring
  socketRef :: "Socket option"
  mediaRecorderRef :: bool
  emitted :: "(jsstring \<times> outgoing) list"
  toasts :: "(toast_kind \<times> jsstring) list"
  spoken :: "(jsstring \<times> jsstring) list"

subsection \<open>Running effects\<close>

fun apply_effect :: "'m effect \<Rightarrow> 'm panel \<Rightarrow> 'm panel" where
  "apply_effect (SetChatState f) st = st\<lparr>chatState := f (chatState st)\<rparr>"
| "apply_effect (SetInputMessage s) st = st\<lparr>inputMessage := s\<rparr>"
| "apply_effect (SetIsRecording b) st = st\<lparr>isRecording := b\<rparr>"
| "apply_effect (Emit name d) st = st\<lparr>emitted := emitted st @ [(name, d)]\<rparr>"
| "apply_effect (Toast k s) st = st\<lparr>toasts := toasts st @ [(k, s)]\<rparr>"
| "apply_effect GetUserMedia st = st"
| "apply_effect StartRecorder st = st\<lparr>mediaRecorderRef := True\<rparr>"
| "apply_effect StopRecorder st = st"
| "apply_effect (Speak s lang) st = st\<lparr>spoken := spoken st @ [(s, lang)]\<rparr>"

definition run :: "'m effect list \<Rightarrow> 'm panel \<Rightarrow> 'm panel" where
  "run effs st = fold apply_effect effs st"

subsection \<open>Handlers\<close>

definition addMessage :: "'m Message \<Rightarrow> 'm effect" where
  "addMessage m = SetChatState (\<lambda>prev. prev\<lparr>messages := messages prev @ [m]\<rparr>)"

definition welcome_text :: jsstring where
  "welcome_text = [240, 376, 8216, 8249] @
     js '' Welcome to ChatBotX! I'm your AI Education Assistant. How can I help you today?''"

definition on_connect :: "'m data \<Rightarrow> env \<Rightarrow> 'm effect list" where
  "on_connect d e =
     [SetChatState (\<lambda>prev. prev\<lparr>isConnected := True\<rparr>),
      Toast Success (js ''Connected to ChatBotX!''),
      addMessage \<lparr>id' = random_id e, text = welcome_text, sender = Bot, timestamp = now e,
        typing = None, buttons = None,
        quick_replies = Some
          [\<lparr>button.title = js ''Browse Courses'', payload = js ''/courses''\<rparr>,
           \<lparr>button.title = js ''Enrollment Help'', payload = js ''/enrollment''\<rparr>,
           \<lparr>button.title = js ''FAQ'', payload = js ''/faq''\<rparr>,
           \<lparr>button.title = js ''Contact Support'', payload = js ''/support''\<rparr>],
        suggestions = None, metadata = None\<rparr>]"

definition on_disconnect :: "'m data \<Rightarrow> env \<Rightarrow> 'm effect list" where
  "on_disconnect d e =
     [SetChatState (\<lambda>prev. prev\<lparr>isConnected := False\<rparr>),
      Toast Error (js ''Connection lost. Reconnecting...'')]"

definition on_bot_response :: "'m data \<Rightarrow> env \<Rightarrow> 'm effect list" where
  "on_bot_response d e =
     [SetChatState (\<lambda>prev. prev\<lparr>isTyping := False\<rparr>),
      addMessage \<lparr>id' = random_id e, text = data.text d, sender = Bot, timestamp = now e,
        typing = None, buttons = data.buttons d, quick_replies = data.quick_replies d,
        suggestions = data.suggestions d, metadata = data.metadata d\<rparr>]"

definition on_typing :: "'m data \<Rightarrow> env \<Rightarrow> 'm effect list" where
  "on_typing d e = [SetChatState (\<lambda>prev. prev\<lparr>isTyping := is_typing d\<rparr>)]"

definition on_system :: "'m data \<Rightarrow> env \<Rightarrow> 'm effect list" where
  "on_system d e =
     (if message_type d = js ''error'' then [Toast Error (data.message d)]
      else [Toast Success (data.message d)])"

fun listener_body :: "listener \<Rightarrow> 'm data \<Rightarrow> env \<Rightarrow> 'm effect list" where
  "listener_body OnConnect = on_connect"
| "listener_body OnDisconnect = on_disconnect"
| "listener_body OnBotResponse = on_bot_response"
| "listener_body OnTyping = on_typing"
| "listener_body OnSystem = on_system"

text \<open>\<open>socket.on(name, handler)\<close> adds a listener after those already registered.\<close>

definition on :: "jsstring \<Rightarrow> listener \<Rightarrow> Socket \<Rightarrow> Socket" where
  "on name h sock = sock\<lparr>listeners := listeners sock @ [(name, h)]\<rparr>"

definition io :: "jsstring \<Rightarrow> jsstring list \<Rightarrow> Socket" where
  "io u ts = \<lparr>url = u, transports = ts, listeners = []\<rparr>"

definition initializeConnection :: Socket where
  "initializeConnection =
     (on (js ''system'') OnSystem
     (on (js ''typing'') OnTyping
     (on (js ''bot_response'') OnBotResponse
     (on (js ''disconnect'') OnDisconnect
     (on (js ''connect'') OnConnect
     (io (js ''ws://localhost:8080'') [js ''websocket''])))))) "

text \<open>
  \<open>sendMessage(message, payload?)\<close>. It returns at once when the message is blank or there
  is no socket; otherwise it adds the user's message, clears the input, sets the typing flag
  and then emits.
\<close>

definition sendMessage :: "jsstring \<Rightarrow> jsstring option \<Rightarrow> env \<Rightarrow> 'm panel \<Rightarrow> 'm effect list" where
  "sendMessage msg pl e st =
     (if falsy (trim msg) \<or> Option.is_none (socketRef st) then []
      else
        [addMessage \<lparr>id' = random_id e, text = msg, sender = User, timestamp = now e,
           typing = None, buttons = None, quick_replies = None, suggestions = None,
           metadata = None\<rparr>,
         SetInputMessage [],
         SetChatState (\<lambda>prev. prev\<lparr>isTyping := True\<rparr>),
         Emit (js ''message'')
           \<lparr>sender = clientId st, message = msg, payload = pl,
            metadata = \<lparr>timestamp = now_iso e,
                        language = currentLanguage (chatState st)\<rparr>\<rparr>])"

definition handleInputSubmit :: "env \<Rightarrow> 'm panel \<Rightarrow> 'm effect list" where
  "handleInputSubmit e st = sendMessage (inputMessage st) None e st"

definition handleQuickReply :: "jsstring \<Rightarrow> jsstring \<Rightarrow> env \<Rightarrow> 'm panel \<Rightarrow> 'm effect list" where
  "handleQuickReply t p e st = sendMessage t (Some p) e st"

text \<open>
  \<open>startRecording\<close> is asynchronous. Called from the click it only asks for the microphone
  and waits; the rest of its \<open>try\<close> block, or its \<open>catch\<close>, runs later, when the promise of
  \<open>getUserMedia\<close> has settled. Until then \<open>isRecording\<close> is unchanged, so a second click
  asks again and each request is resumed on its own.
\<close>

definition startRecording :: "env \<Rightarrow> 'm panel \<Rightarrow> 'm effect list" where
  "startRecording e st = [GetUserMedia]"

definition startRecording_resumed :: "env \<Rightarrow> 'm panel \<Rightarrow> 'm effect list" where
  "startRecording_resumed e st =
     (case media e of
        Recording \<Rightarrow>
          [StartRecorder, SetIsRecording True, Toast Success (js ''Recording started...'')]
      | StartFailed \<Rightarrow> [StartRecorder, Toast Error (js ''Could not access microphone'')]
      | Rejected \<Rightarrow> [Toast Error (js ''Could not access microphone'')])"

definition stopRecording :: "env \<Rightarrow> 'm panel \<Rightarrow> 'm effect list" where
  "stopRecording e st =
     (if mediaRecorderRef st \<and> isRecording st
      then [StopRecorder, SetIsRecording False, Toast Success (js ''Recording stopped'')]
      else [])"

definition handleVoiceRecording :: "env \<Rightarrow> 'm panel \<Rightarrow> 'm effect list" where
  "handleVoiceRecording e st =
     (if \<not> isRecording st then startRecording e st else stopRecording e st)"

text \<open>The recorder's \<open>stop\<close> listener hands the audio to \<open>processAudioMessage\<close>.\<close>

definition processAudioMessage :: "env \<Rightarrow> 'm panel \<Rightarrow> 'm effect list" where
  "processAudioMessage e st = [Toast Success (js ''Audio message processed'')]"

definition speakText :: "jsstring \<Rightarrow> env \<Rightarrow> 'm panel \<Rightarrow> 'm effect list" where
  "speakText s e st =
     (if speechSynthesis e then [Speak s (currentLanguage (chatState st))] else [])"

definition toggleFullscreen :: "env \<Rightarrow> 'm panel \<Rightarrow> 'm effect list" where
  "toggleFullscreen e st = [SetChatState (\<lambda>prev. prev\<lparr>isFullscreen := \<not> isFullscreen prev\<rparr>)]"

subsection \<open>The component as a state machine\<close>

text \<open>
  One step is one piece of the component's code run without interruption: the server sends
  an event on the socket, the user acts on an element of the page, the promise of
  \<open>getUserMedia\<close> settles and \<open>startRecording\<close> resumes, or the recorder fires its \<open>stop\<close>
  event. The steps are the handlers the component defines, whether or not the page
  currently lets the user reach them (a disabled button fires nothing); the two steps of
  the recorder may be taken at any time, which includes every time at which the browser
  takes them. Unmounting, which disconnects the socket, ends the component and is no step.
\<close>

datatype 'm event =
    ServerEvent jsstring "'m data"
  | InputChange jsstring
  | InputSubmit
  | QuickReply jsstring jsstring
  | VoiceRecording
  | GetUserMediaSettled
  | RecorderStop
  | Listen jsstring
  | ToggleFullscreen
  | OpenSettings
  | CloseSettings

text \<open>An event of the socket runs every listener registered under its name, in order.\<close>

definition dispatch :: "jsstring \<Rightarrow> 'm data \<Rightarrow> env \<Rightarrow> 'm panel \<Rightarrow> 'm effect list" where
  "dispatch name d e st =
     (case socketRef st of
        None \<Rightarrow> []
      | Some sock \<Rightarrow>
          concat (map (\<lambda>(n, h). listener_body h d e)
            (filter (\<lambda>(n, h). n = name) (listeners sock))))"

fun handler :: "'m event \<Rightarrow> env \<Rightarrow> 'm panel \<Rightarrow> 'm effect list" where
  "handler (ServerEvent name d) e st = dispatch name d e st"
| "handler (InputChange v) e st = [SetInputMessage v]"
| "handler InputSubmit e st = handleInputSubmit e st"
| "handler (QuickReply t p) e st = handleQuickReply t p e st"
| "handler VoiceRecording e st = handleVoiceRecording e st"
| "handler GetUserMediaSettled e st = startRecording_resumed e st"
| "handler RecorderStop e st = processAudioMessage e st"
| "handler (Listen s) e st = speakText s e st"
| "handler ToggleFullscreen e st = toggleFullscreen e st"
| "handler OpenSettings e st = [SetChatState (\<lambda>prev. prev\<lparr>showSettings := True\<rparr>)]"
| "handler CloseSettings e st = [SetChatState (\<lambda>prev. prev\<lparr>showSettings := False\<rparr>)]"

definition panel_step :: "env \<Rightarrow> 'm panel \<Rightarrow> 'm event \<Rightarrow> 'm panel" where
  "panel_step e st ev = run (handler ev e st) st"

fun panel_run :: "'m panel \<Rightarrow> (env \<times> 'm event) list \<Rightarrow> 'm panel" where
  "panel_run st [] = st"
| "panel_run st ((e, ev) # rest) = panel_run (panel_step e st ev) rest"

text \<open>The state of the first render, and the state once the mount effect has run.\<close>

definition initial_panel :: "jsstring \<Rightarrow> 'm panel" where
  "initial_panel cid =
     \<lparr>chatState = \<lparr>messages = [], isTyping = False, isConnected = False,
                    currentLanguage = js ''en'', isFullscreen = False, showSettings = False\<rparr>,
      inputMessage = [], isRecording = False, clientId = cid, socketRef = None,
      mediaRecorderRef = False, emitted = [], toasts = [], spoken = []\<rparr>"

definition mount :: "jsstring \<Rightarrow> 'm panel" where
  "mount cid = (initial_panel cid)\<lparr>socketRef := Some initializeConnection\<rparr>"

subsection \<open>Rendering\<close>

text \<open>
  What \<open>renderMessage\<close> shows of one message: the React key, the side and avatar (the
  user's messages on the right), the markdown body, the time caption, the Listen button of
  a bot message, and the quick-reply chips and action buttons, each with its label and the
  step its click runs. \<open>fmt\<close> is \<open>Date.prototype.toLocaleTimeString\<close>.
\<close>

record 'm bubble =
  key :: jsstring
  from_user :: bool
  markdown :: jsstring
  caption :: jsstring
  listen :: "'m event option"
  chips :: "(jsstring \<times> 'm event) list option"
  actions :: "(jsstring \<times> 'm event) list option"

definition reply_button :: "button \<Rightarrow> jsstring \<times> 'm event" where
  "reply_button r = (button.title r, QuickReply (button.title r) (button.payload r))"

definition renderMessage :: "(date \<Rightarrow> jsstring) \<Rightarrow> 'm Message \<Rightarrow> 'm bubble" where
  "renderMessage fmt m =
     \<lparr>key = id' m, from_user = (Message.sender m = User), markdown = Message.text m,
      caption = fmt (Message.timestamp m),
      listen = (if Message.sender m = Bot then Some (Listen (Message.text m)) else None),
      chips = map_option (map reply_button) (Message.quick_replies m),
      actions = map_option (map reply_button) (Message.buttons m)\<rparr>"

definition messages_area :: "(date \<Rightarrow> jsstring) \<Rightarrow> 'm panel \<Rightarrow> 'm bubble list" where
  "messages_area fmt st = map (renderMessage fmt) (messages (chatState st))"

definition typing_indicator :: "'m panel \<Rightarrow> bool" where
  "typing_indicator st = isTyping (chatState st)"

section \<open>Specification-side definitions\<close>

text \<open>
  The value a step writes to the typing flag, if it writes one: a \<open>typing\<close> event writes
  the \<open>is_typing\<close> of its payload, a \<open>bot_response\<close> event writes false, and a message
  that \<open>sendMessage\<close> accepts (from the input field or from a quick reply) writes true.
\<close>

fun typing_written :: "'m panel \<Rightarrow> 'm event \<Rightarrow> bool option" where
  "typing_written st (ServerEvent name d) =
     (if name = js ''typing'' then Some (is_typing d)
      else if name = js ''bot_response'' then Some False
      else None)"
| "typing_written st InputSubmit =
     (if trim (inputMessage st) \<noteq> [] \<and> socketRef st \<noteq> None then Some True else None)"
| "typing_written st (QuickReply t p) =
     (if trim t \<noteq> [] \<and> socketRef st \<noteq> None then Some True else None)"
| "typing_written st ev = None"

text \<open>The value written by the last step of a run that wrote the flag.\<close>

fun last_written :: "'m panel \<Rightarrow> (env \<times> 'm event) list \<Rightarrow> bool option" where
  "last_written st [] = None"
| "last_written st ((e, ev) # rest) =
     (case last_written (panel_step e st ev) rest of
        Some b \<Rightarrow> Some b
      | None \<Rightarrow> typing_written st ev)"

text \<open>
  What the courses slice is to select, in the words of its description: a course whose
  price lies within the price range, ends included, and that matches each of the category,
  level and search filters that is not empty. A course matches the search when the
  lower-cased query occurs in its lower-cased title, description or instructor.
\<close>

definition in_priceRange :: "('n::ord) filters \<Rightarrow> 'n Course \<Rightarrow> bool" where
  "in_priceRange f c \<longleftrightarrow> fst (priceRange f) \<le> price c \<and> price c \<le> snd (priceRange f)"

definition course_matches ::
  "(jsstring \<Rightarrow> jsstring) \<Rightarrow> ('n::ord) filters \<Rightarrow> 'n Course \<Rightarrow> bool" where
  "course_matches toLowerCase f c \<longleftrightarrow>
     in_priceRange f c
     \<and> (filters.category f \<noteq> [] \<longrightarrow> Course.category c = filters.category f)
     \<and> (filters.level f \<noteq> [] \<longrightarrow> level_string (Course.level c) = filters.level f)
     \<and> (searchQuery f \<noteq> [] \<longrightarrow>
          sublist (toLowerCase (searchQuery f)) (toLowerCase (Course.title c))
          \<or> sublist (toLowerCase (searchQuery f)) (toLowerCase (description c))
          \<or> sublist (toLowerCase (searchQuery f)) (toLowerCase (instructor c)))"

section \<open>Sample inputs\<close>

text \<open>Concrete values on which the theorems below are run.\<close>

definition sample_env :: env where
  "sample_env =
     \<lparr>random_id = js ''0.k3'', now = 5, now_iso = js ''1970-01-01T00:00:00.005Z'',
      media = Recording, speechSynthesis = True\<rparr>"

definition sample_message :: "unit chat_Message" where
  "sample_message =
     \<lparr>chat_Message.id' = js ''0.k3'', text = js ''hi'', sender = User, timestamp = 5,
      buttons = None, quick_replies = None, suggestions = None, metadata = None\<rparr>"

definition sample_data :: "unit data" where
  "sample_data =
     \<lparr>data.text = js ''Pick one'', buttons = None,
      quick_replies = Some [\<lparr>button.title = js ''FAQ'', payload = js ''/faq''\<rparr>,
                            \<lparr>button.title = [], payload = js ''/next''\<rparr>],
      suggestions = None, metadata = None, is_typing = True, message_type = js ''info'',
      message = js ''hello''\<rparr>"

definition sample_course :: "jsstring \<Rightarrow> jsstring \<Rightarrow> level \<Rightarrow> int \<Rightarrow> int Course" where
  "sample_course t cat lv p =
     \<lparr>Course.id' = js ''c'', course_code = js ''C-1'', title = t, description = js ''An intro'',
      category = cat, duration = js ''4 weeks'', price = p, currency = js ''USD'', level = lv,
      status = active, max_students = 30, enrolled_students = 12, instructor = js ''Ada'',
      start_date = js ''2024-01-01'', end_date = js ''2024-02-01'', schedule = js ''Mon'',
      created_at = js ''2023-12-01'', updated_at = js ''2023-12-02''\<rparr>"

definition sample_courses :: "int Course list" where
  "sample_courses =
     [sample_course (js ''Algebra'') (js ''math'') beginner 50,
      sample_course (js ''Algebra II'') (js ''math'') beginner 2000,
      sample_course (js ''Drawing'') (js ''art'') beginner 50]"

text \<open>A clock face that \<open>toLocaleTimeString\<close> may show.\<close>

definition sample_toLocaleTimeString :: "date \<Rightarrow> jsstring" where
  "sample_toLocaleTimeString t = js ''12:00:00 AM''"

text \<open>A lower-casing of the letters A to Z, standing in for \<open>toLowerCase\<close> on such input.\<close>

definition sample_toLowerCase :: "jsstring \<Rightarrow> jsstring" where
  "sample_toLowerCase s = map (\<lambda>c. if 65 \<le> c \<and> c \<le> 90 then c + 32 else c) s"

section \<open>Running effects and dispatching events\<close>

lemma run_Nil: "run [] st = st"
  by (simp add: run_def)

lemma run_Cons: "run (x # xs) st = run xs (apply_effect x st)"
  by (simp add: run_def)

lemma run_append: "run (xs @ ys) st = run ys (run xs st)"
  by (simp add: run_def)

lemma apply_addMessage:
  "apply_effect (addMessage m) st =
     st\<lparr>chatState := (chatState st)\<lparr>messages := messages (chatState st) @ [m]\<rparr>\<rparr>"
  by (simp add: addMessage_def)

lemma socketRef_apply_effect: "socketRef (apply_effect x st) = socketRef st"
  by (cases x) simp_all

lemma socketRef_run: "socketRef (run xs st) = socketRef st"
  by (induction xs arbitrary: st) (simp_all add: run_Nil run_Cons socketRef_apply_effect)

lemma socketRef_panel_step: "socketRef (panel_step e st ev) = socketRef st"
  by (simp add: panel_step_def socketRef_run)

lemma event_names_distinct:
  "js ''connect'' \<noteq> js ''disconnect''" "js ''connect'' \<noteq> js ''bot_response''"
  "js ''connect'' \<noteq> js ''typing''" "js ''connect'' \<noteq> js ''system''"
  "js ''disconnect'' \<noteq> js ''bot_response''" "js ''disconnect'' \<noteq> js ''typing''"
  "js ''disconnect'' \<noteq> js ''system''" "js ''bot_response'' \<noteq> js ''typing''"
  "js ''bot_response'' \<noteq> js ''system''" "js ''typing'' \<noteq> js ''system''"
  by (simp_all add: js_def)

lemma listeners_initializeConnection:
  "listeners initializeConnection =
     [(js ''connect'', OnConnect), (js ''disconnect'', OnDisconnect),
      (js ''bot_response'', OnBotResponse), (js ''typing'', OnTyping),
      (js ''system'', OnSystem)]"
  by (simp add: initializeConnection_def on_def io_def)

lemma dispatch_mounted:
  assumes "socketRef st = Some initializeConnection"
  shows "dispatch name d e st =
     (if name = js ''connect'' then on_connect d e
      else if name = js ''disconnect'' then on_disconnect d e
      else if name = js ''bot_response'' then on_bot_response d e
      else if name = js ''typing'' then on_typing d e
      else if name = js ''system'' then on_system d e
      else [])"
  using assms event_names_distinct
  by (auto simp: dispatch_def listeners_initializeConnection)

lemma listener_messages_prefix:
  "prefix (messages (chatState st)) (messages (chatState (run (listener_body h d e) st)))"
  by (cases h)
    (simp_all add: on_connect_def on_disconnect_def on_bot_response_def on_typing_def
      on_system_def run_Nil run_Cons apply_addMessage)

lemma listeners_messages_prefix:
  "prefix (messages (chatState st))
     (messages (chatState (run (concat (map (\<lambda>(n, h). listener_body h d e) ls)) st)))"
proof (induction ls arbitrary: st)
  case Nil
  show ?case by (simp add: run_Nil)
next
  case (Cons l ls)
  obtain n h where l: "l = (n, h)" by (cases l)
  have "prefix (messages (chatState st)) (messages (chatState (run (listener_body h d e) st)))"
    by (rule listener_messages_prefix)
  moreover have "prefix (messages (chatState (run (listener_body h d e) st)))
     (messages (chatState (run (concat (map (\<lambda>(n, h). listener_body h d e) ls))
        (run (listener_body h d e) st))))"
    by (rule Cons.IH)
  ultimately show ?case
    by (simp add: l run_append)
qed

lemma sendMessage_messages_prefix:
  "prefix (messages (chatState st)) (messages (chatState (run (sendMessage msg pl e st) st)))"
  by (simp add: sendMessage_def run_Nil run_Cons apply_addMessage)

lemma panel_step_messages_prefix:
  "prefix (messages (chatState st)) (messages (chatState (panel_step e st ev)))"
proof (cases ev)
  case (ServerEvent name d)
  show ?thesis
    unfolding panel_step_def ServerEvent handler.simps dispatch_def
    by (cases "socketRef st") (simp_all add: run_Nil listeners_messages_prefix)
next
  case VoiceRecording
  show ?thesis
    unfolding panel_step_def VoiceRecording handler.simps
    by (simp add: handleVoiceRecording_def startRecording_def stopRecording_def run_Nil run_Cons)
next
  case GetUserMediaSettled
  show ?thesis
    unfolding panel_step_def GetUserMediaSettled handler.simps
    by (simp add: startRecording_resumed_def run_Nil run_Cons split: media_result.split)
qed (simp_all add: panel_step_def handleInputSubmit_def handleQuickReply_def
      sendMessage_messages_prefix processAudioMessage_def speakText_def toggleFullscreen_def
      run_Nil run_Cons)

section \<open>Sending a message\<close>

text \<open>
  C8. If the message trims to the empty string, or the socket reference is null,
  \<open>sendMessage\<close> does nothing: it has no effect at all, so the message list, the typing
  flag and the input field are unchanged and nothing is emitted.
\<close>

theorem sendMessage_blank_or_no_socket:
  assumes "trim msg = [] \<or> socketRef st = None"
  shows "sendMessage msg pl e st = [] \<and> run (sendMessage msg pl e st) st = st"
  using assms by (auto simp: sendMessage_def falsy_def run_Nil Option.is_none_def)

theorem sendMessage_blank_or_no_socket_witness:
  "trim (js ''  '') = []
   \<and> run (sendMessage (js ''  '') None sample_env (mount (js ''abc'') :: unit panel))
        (mount (js ''abc'')) = mount (js ''abc'')
   \<and> socketRef (initial_panel (js ''abc'') :: unit panel) = None
   \<and> run (sendMessage (js ''hi'') None sample_env (initial_panel (js ''abc'') :: unit panel))
        (initial_panel (js ''abc'')) = initial_panel (js ''abc'')"
proof -
  have blank: "trim (js ''  '') = []"
    by (simp add: trim_def js_def isWhiteSpace_def)
  have none: "socketRef (initial_panel (js ''abc'') :: unit panel) = None"
    by (simp add: initial_panel_def)
  show ?thesis
    using blank none
      sendMessage_blank_or_no_socket [OF disjI1, OF blank]
      sendMessage_blank_or_no_socket [OF disjI2, OF none]
    by blast
qed



section \<open>The message list only grows\<close>

text \<open>
  The claim C2 as written fails on the chat slice: after one message has been added,
  \<open>clearMessages\<close> leaves a list of which the old one is no prefix.
\<close>

theorem chat_clearMessages_counterexample:
  "\<not> prefix
     (chat_State.messages (chat_reducer chat_initialState (AddMessage sample_message)))
     (chat_State.messages
        (chat_reducer (chat_reducer chat_initialState (AddMessage sample_message))
           ClearMessages))"
  by (simp add: chat_initialState_def)

text \<open>
  C2, amended. For every step of the chat panel, and for every action of the chat slice
  other than \<open>clearMessages\<close>, the message list after it is the list before it with zero
  or more records added at the end: no record is removed, moved or changed.
  \<open>clearMessages\<close> empties the list of the slice.
\<close>

theorem messages_append_only:
  "prefix (messages (chatState st)) (messages (chatState (panel_step e st ev)))
   \<and> (a \<noteq> ClearMessages \<longrightarrow>
        prefix (chat_State.messages s) (chat_State.messages (chat_reducer s a)))
   \<and> chat_State.messages (chat_reducer s ClearMessages) = []"
proof -
  have "prefix (chat_State.messages s) (chat_State.messages (chat_reducer s a))"
    if "a \<noteq> ClearMessages"
    using that by (cases a) simp_all
  then show ?thesis
    by (simp add: panel_step_messages_prefix)
qed

theorem messages_append_only_witness:
  "AddMessage sample_message \<noteq> ClearMessages
   \<and> prefix
       (chat_State.messages (chat_reducer chat_initialState (AddMessage sample_message)))
       (chat_State.messages
          (chat_reducer (chat_reducer chat_initialState (AddMessage sample_message))
             (AddMessage sample_message)))
   \<and> prefix
       (messages (chatState (panel_step sample_env (mount (js ''abc''))
          (ServerEvent (js ''bot_response'') sample_data))))
       (messages (chatState (panel_step sample_env
          (panel_step sample_env (mount (js ''abc''))
             (ServerEvent (js ''bot_response'') sample_data))
          (QuickReply (js ''FAQ'') (js ''/faq'')))))"
  using messages_append_only [where st = "panel_step sample_env (mount (js ''abc''))
          (ServerEvent (js ''bot_response'') sample_data)"
      and e = sample_env and ev = "QuickReply (js ''FAQ'') (js ''/faq'')"
      and a = "AddMessage sample_message"
      and s = "chat_reducer chat_initialState (AddMessage sample_message)"]
  by simp

section \<open>The connection flag\<close>

text \<open>
  C5. The connection flag is false at the start. On the mounted component it is true after
  every \<open>connect\<close> event and false after every \<open>disconnect\<close> event, and no other event of
  the server and no action of the user changes it.
\<close>

theorem isConnected_tracks_socket:
  assumes "socketRef st = Some initializeConnection"
  shows "isConnected (chatState (initial_panel cid :: 'm panel)) = False
    \<and> isConnected (chatState (mount cid :: 'm panel)) = False
    \<and> isConnected (chatState (panel_step e st (ServerEvent (js ''connect'') d))) = True
    \<and> isConnected (chatState (panel_step e st (ServerEvent (js ''disconnect'') d))) = False
    \<and> ((\<forall>d'. ev \<noteq> ServerEvent (js ''connect'') d' \<and> ev \<noteq> ServerEvent (js ''disconnect'') d')
         \<longrightarrow> isConnected (chatState (panel_step e st (ev :: 'm event))) = isConnected (chatState st))"
proof -
  have init: "isConnected (chatState (initial_panel cid :: 'm panel)) = False"
    "isConnected (chatState (mount cid :: 'm panel)) = False"
    by (simp_all add: mount_def initial_panel_def)
  have conn: "isConnected (chatState (panel_step e st (ServerEvent (js ''connect'') d))) = True"
    by (simp add: panel_step_def dispatch_mounted [OF assms] on_connect_def run_Nil run_Cons
        apply_addMessage)
  have disc: "isConnected (chatState (panel_step e st (ServerEvent (js ''disconnect'') d))) = False"
    by (simp add: panel_step_def dispatch_mounted [OF assms] event_names_distinct [symmetric]
        on_disconnect_def run_Nil run_Cons)
  have other: "isConnected (chatState (panel_step e st ev)) = isConnected (chatState st)"
    if "\<forall>d'. ev \<noteq> ServerEvent (js ''connect'') d' \<and> ev \<noteq> ServerEvent (js ''disconnect'') d'"
  proof (cases ev)
    case (ServerEvent name dd)
    with that have "name \<noteq> js ''connect''" "name \<noteq> js ''disconnect''"
      by auto
    then show ?thesis
      by (simp add: ServerEvent panel_step_def dispatch_mounted [OF assms] on_bot_response_def
          on_typing_def on_system_def run_Nil run_Cons apply_addMessage)
  qed (simp_all add: panel_step_def handleInputSubmit_def handleQuickReply_def
      sendMessage_def handleVoiceRecording_def startRecording_def startRecording_resumed_def
      stopRecording_def
      processAudioMessage_def speakText_def toggleFullscreen_def
      run_Nil run_Cons apply_addMessage split: media_result.split)
  show ?thesis using init conn disc other by blast
qed

theorem isConnected_tracks_socket_witness:
  "socketRef (mount (js ''abc'') :: unit panel) = Some initializeConnection
   \<and> isConnected (chatState (panel_step sample_env (mount (js ''abc''))
         (ServerEvent (js ''connect'') sample_data))) = True
   \<and> isConnected (chatState (panel_step sample_env (mount (js ''abc''))
         (ServerEvent (js ''disconnect'') sample_data))) = False
   \<and> isConnected (chatState (panel_step sample_env (mount (js ''abc''))
         (ServerEvent (js ''typing'') sample_data))) = False"
proof -
  have mounted: "socketRef (mount (js ''abc'') :: unit panel) = Some initializeConnection"
    by (simp add: mount_def)
  have other: "\<forall>d'. ServerEvent (js ''typing'') sample_data \<noteq> ServerEvent (js ''connect'') d'
      \<and> ServerEvent (js ''typing'') sample_data \<noteq> ServerEvent (js ''disconnect'') d'"
    by (simp add: js_def)
  have start: "isConnected (chatState (mount (js ''abc'') :: unit panel)) = False"
    by (simp add: mount_def initial_panel_def)
  show ?thesis
    using mounted other start
      isConnected_tracks_socket [OF mounted, where e = sample_env and d = sample_data
        and ev = "ServerEvent (js ''typing'') sample_data"]
    by simp
qed

section \<open>The events of the socket\<close>

text \<open>
  C4. The mounted component has listeners for exactly the five events \<open>connect\<close>,
  \<open>disconnect\<close>, \<open>bot_response\<close>, \<open>typing\<close> and \<open>system\<close>. Each \<open>bot_response\<close> event
  adds exactly one bot record at the end of the message list, with the text, buttons,
  quick replies, suggestions and metadata of the payload; a \<open>system\<close> event adds nothing
  to the list. An event of any other name has no listener and changes nothing.
\<close>

theorem socket_handlers:
  assumes "socketRef st = Some initializeConnection"
  shows "socketRef (mount cid :: 'm panel) = Some initializeConnection
    \<and> map fst (listeners initializeConnection) =
        [js ''connect'', js ''disconnect'', js ''bot_response'', js ''typing'', js ''system'']
    \<and> messages (chatState (panel_step e st (ServerEvent (js ''bot_response'') d))) =
        messages (chatState st) @
          [\<lparr>id' = random_id e, text = data.text d, sender = Bot, timestamp = now e,
            typing = None, buttons = data.buttons d, quick_replies = data.quick_replies d,
            suggestions = data.suggestions d, metadata = data.metadata d\<rparr>]
    \<and> messages (chatState (panel_step e st (ServerEvent (js ''system'') d))) =
        messages (chatState st)
    \<and> (name \<notin> set (map fst (listeners initializeConnection)) \<longrightarrow>
         panel_step e st (ServerEvent name d) = (st :: 'm panel))"
proof -
  have m: "socketRef (mount cid :: 'm panel) = Some initializeConnection"
    by (simp add: mount_def)
  have names: "map fst (listeners initializeConnection) =
      [js ''connect'', js ''disconnect'', js ''bot_response'', js ''typing'', js ''system'']"
    by (simp add: listeners_initializeConnection)
  have bot: "messages (chatState (panel_step e st (ServerEvent (js ''bot_response'') d))) =
        messages (chatState st) @
          [\<lparr>id' = random_id e, text = data.text d, sender = Bot, timestamp = now e,
            typing = None, buttons = data.buttons d, quick_replies = data.quick_replies d,
            suggestions = data.suggestions d, metadata = data.metadata d\<rparr>]"
    by (simp add: panel_step_def dispatch_mounted [OF assms] event_names_distinct [symmetric]
        on_bot_response_def run_Nil run_Cons apply_addMessage)
  have sys: "messages (chatState (panel_step e st (ServerEvent (js ''system'') d))) =
        messages (chatState st)"
    by (simp add: panel_step_def dispatch_mounted [OF assms] event_names_distinct [symmetric]
        on_system_def run_Nil run_Cons)
  have none: "panel_step e st (ServerEvent name d) = st"
    if "name \<notin> set (map fst (listeners initializeConnection))"
    using that
    by (simp add: names panel_step_def dispatch_mounted [OF assms] run_Nil)
  show ?thesis using m names bot sys none by blast
qed

theorem socket_handlers_witness:
  "socketRef (mount (js ''abc'') :: unit panel) = Some initializeConnection
   \<and> messages (chatState (panel_step sample_env (mount (js ''abc''))
        (ServerEvent (js ''bot_response'') sample_data))) =
       [\<lparr>id' = js ''0.k3'', text = js ''Pick one'', sender = Bot, timestamp = 5,
         typing = None, buttons = None,
         quick_replies = Some [\<lparr>button.title = js ''FAQ'', payload = js ''/faq''\<rparr>,
                               \<lparr>button.title = [], payload = js ''/next''\<rparr>],
         suggestions = None, metadata = None\<rparr>]
   \<and> messages (chatState (panel_step sample_env (mount (js ''abc'') :: unit panel)
        (ServerEvent (js ''system'') sample_data))) = []
   \<and> js ''message'' \<notin> set (map fst (listeners initializeConnection))
   \<and> panel_step sample_env (mount (js ''abc'') :: unit panel)
        (ServerEvent (js ''message'') sample_data) = mount (js ''abc'')"
proof -
  have mounted: "socketRef (mount (js ''abc'') :: unit panel) = Some initializeConnection"
    by (simp add: mount_def)
  have unknown: "js ''message'' \<notin> set (map fst (listeners initializeConnection))"
    by (simp add: listeners_initializeConnection js_def)
  have start: "messages (chatState (mount (js ''abc'') :: unit panel)) = []"
    by (simp add: mount_def initial_panel_def)
  show ?thesis
    using mounted unknown start
      socket_handlers [OF mounted, where e = sample_env and d = sample_data
        and name = "js ''message''"]
    by (simp add: sample_env_def sample_data_def listeners_initializeConnection js_def)
qed

section \<open>The typing flag\<close>

lemma typing_written_step:
  assumes "socketRef st = Some initializeConnection"
  shows "isTyping (chatState (panel_step e st ev)) =
     (case typing_written st ev of Some b \<Rightarrow> b | None \<Rightarrow> isTyping (chatState st))"
proof (cases ev)
  case (ServerEvent name d)
  show ?thesis
    by (simp add: ServerEvent panel_step_def dispatch_mounted [OF assms] event_names_distinct
        event_names_distinct [symmetric] on_connect_def on_disconnect_def on_bot_response_def
        on_typing_def on_system_def run_Nil run_Cons apply_addMessage)
next
  case VoiceRecording
  show ?thesis
    by (simp add: VoiceRecording panel_step_def handleVoiceRecording_def startRecording_def
        stopRecording_def run_Nil run_Cons)
next
  case GetUserMediaSettled
  show ?thesis
    by (simp add: GetUserMediaSettled panel_step_def startRecording_resumed_def run_Nil run_Cons
        split: media_result.split)
qed (simp_all add: assms panel_step_def handleInputSubmit_def handleQuickReply_def
      sendMessage_def falsy_def Option.is_none_def processAudioMessage_def speakText_def
      toggleFullscreen_def run_Nil run_Cons apply_addMessage)

lemma last_written_run:
  assumes "socketRef st = Some initializeConnection"
  shows "isTyping (chatState (panel_run st steps)) =
     (case last_written st steps of Some b \<Rightarrow> b | None \<Rightarrow> isTyping (chatState st))"
  using assms
proof (induction steps arbitrary: st)
  case Nil
  show ?case by simp
next
  case (Cons step steps)
  obtain e ev where step: "step = (e, ev)" by (cases step)
  have mounted: "socketRef (panel_step e st ev) = Some initializeConnection"
    by (simp add: socketRef_panel_step Cons.prems)
  show ?case
    by (simp add: step Cons.IH [OF mounted] typing_written_step [OF Cons.prems]
        split: option.split)
qed

text \<open>
  The claim C3 as written fails: a quick reply that \<open>sendMessage\<close> accepts is no \<open>typing\<close>
  event of the server, and it changes the typing flag of the freshly mounted component
  from false to true.
\<close>

theorem typing_flag_counterexample:
  "isTyping (chatState (panel_step sample_env (mount (js ''abc'') :: unit panel)
      (QuickReply (js ''FAQ'') (js ''/faq''))))
   \<noteq> isTyping (chatState (mount (js ''abc'') :: unit panel))"
  by (simp add: panel_step_def handleQuickReply_def sendMessage_def falsy_def trim_def
      isWhiteSpace_def js_def mount_def initial_panel_def Option.is_none_def run_Nil run_Cons
      apply_addMessage)

text \<open>
  C3, amended. On the mounted component a \<open>typing\<close> event sets the typing flag to the
  \<open>is_typing\<close> of its payload, and the flag keeps that value over any further steps none of
  which writes it. Three kinds of step write the flag: a \<open>typing\<close> event (the value of its
  payload), a \<open>bot_response\<close> event (false) and a message that \<open>sendMessage\<close> accepts
  (true); no other step changes it. So after any run the flag has the value written by the
  last step that wrote it, or its value at the start if none did, and the typing indicator
  shows the flag.
\<close>

theorem typing_flag_last_write:
  assumes "socketRef st = Some initializeConnection"
  shows "isTyping (chatState (panel_step e st (ServerEvent (js ''typing'') d))) = is_typing d
    \<and> (last_written (panel_step e st (ServerEvent (js ''typing'') d)) rest = None \<longrightarrow>
         isTyping (chatState (panel_run st ((e, ServerEvent (js ''typing'') d) # rest)))
           = is_typing d)
    \<and> isTyping (chatState (panel_step e' st ev)) =
        (case typing_written st ev of Some b \<Rightarrow> b | None \<Rightarrow> isTyping (chatState st))
    \<and> isTyping (chatState (panel_run st steps)) =
        (case last_written st steps of Some b \<Rightarrow> b | None \<Rightarrow> isTyping (chatState st))
    \<and> typing_indicator (panel_run st steps) = isTyping (chatState (panel_run st steps))"
proof -
  have one: "isTyping (chatState (panel_step e st (ServerEvent (js ''typing'') d))) = is_typing d"
    by (simp add: typing_written_step [OF assms])
  have quiet: "isTyping (chatState (panel_run st ((e, ServerEvent (js ''typing'') d) # rest)))
      = is_typing d"
    if "last_written (panel_step e st (ServerEvent (js ''typing'') d)) rest = None"
  proof -
    have "last_written st ((e, ServerEvent (js ''typing'') d) # rest) = Some (is_typing d)"
      using that by simp
    then show ?thesis
      using last_written_run [OF assms, of "(e, ServerEvent (js ''typing'') d) # rest"]
      by (simp del: panel_run.simps last_written.simps)
  qed
  show ?thesis
    using one quiet typing_written_step [OF assms] last_written_run [OF assms]
    by (simp add: typing_indicator_def)
qed

theorem typing_flag_last_write_witness:
  "socketRef (mount (js ''abc'') :: unit panel) = Some initializeConnection
   \<and> last_written (panel_step sample_env (mount (js ''abc''))
        (ServerEvent (js ''typing'') sample_data)) [(sample_env, ToggleFullscreen)] = None
   \<and> isTyping (chatState (panel_run (mount (js ''abc''))
        [(sample_env, ServerEvent (js ''typing'') sample_data),
         (sample_env, ToggleFullscreen)])) = True
   \<and> isTyping (chatState (panel_run (mount (js ''abc''))
        [(sample_env, ServerEvent (js ''typing'') sample_data),
         (sample_env, ServerEvent (js ''bot_response'') sample_data)])) = False"
proof -
  have mounted: "socketRef (mount (js ''abc'') :: unit panel) = Some initializeConnection"
    by (simp add: mount_def)
  have quiet: "last_written (panel_step sample_env (mount (js ''abc'') :: unit panel)
        (ServerEvent (js ''typing'') sample_data)) [(sample_env, ToggleFullscreen)] = None"
    by simp
  show ?thesis
    using mounted quiet
      typing_flag_last_write [OF mounted, where e = sample_env and d = sample_data
        and rest = "[(sample_env, ToggleFullscreen)]"
        and steps = "[(sample_env, ServerEvent (js ''typing'') sample_data),
         (sample_env, ServerEvent (js ''bot_response'') sample_data)]"]
    by (simp add: sample_data_def js_def)
qed

section \<open>Rendering the message list\<close>

text \<open>
  C6. The messages area shows one bubble for each record of the message list, in the order
  of the list: the keys, the bodies and the sides of the bubbles are those of the records,
  one for one, nothing is left out, doubled or moved. A record added to the list appears
  as the last bubble, and a step of the panel leaves the bubbles before it as they were.
\<close>

theorem messages_render_in_order:
  "map key (messages_area fmt st) = map id' (messages (chatState st))
   \<and> map markdown (messages_area fmt st) = map Message.text (messages (chatState st))
   \<and> map from_user (messages_area fmt st) =
       map (\<lambda>m. Message.sender m = User) (messages (chatState st))
   \<and> messages_area fmt st = map (renderMessage fmt) (messages (chatState st))
   \<and> length (messages_area fmt st) = length (messages (chatState st))
   \<and> messages_area fmt (run [addMessage m] st) = messages_area fmt st @ [renderMessage fmt m]
   \<and> prefix (messages_area fmt st) (messages_area fmt (panel_step e st ev))"
proof -
  have "prefix (messages_area fmt st) (messages_area fmt (panel_step e st ev))"
    unfolding messages_area_def
    by (rule map_mono_prefix) (rule panel_step_messages_prefix)
  then show ?thesis
    by (simp add: messages_area_def renderMessage_def run_Nil run_Cons apply_addMessage)
qed

theorem messages_render_in_order_witness:
  "map key (messages_area sample_toLocaleTimeString (panel_run (mount (js ''abc''))
      [(sample_env, ServerEvent (js ''bot_response'') sample_data),
       (sample_env\<lparr>random_id := js ''0.x9''\<rparr>, QuickReply (js ''FAQ'') (js ''/faq''))]))
   = [js ''0.k3'', js ''0.x9'']"
proof -
  have "map id' (messages (chatState (panel_run (mount (js ''abc'') :: unit panel)
      [(sample_env, ServerEvent (js ''bot_response'') sample_data),
       (sample_env\<lparr>random_id := js ''0.x9''\<rparr>, QuickReply (js ''FAQ'') (js ''/faq''))])))
     = [js ''0.k3'', js ''0.x9'']"
    by (simp add: panel_step_def dispatch_def listeners_initializeConnection socketRef_run
        on_bot_response_def handleQuickReply_def sendMessage_def falsy_def trim_def
        isWhiteSpace_def Option.is_none_def run_Nil run_Cons apply_addMessage mount_def
        initial_panel_def sample_env_def js_def)
  then show ?thesis
    using messages_render_in_order [where fmt = sample_toLocaleTimeString and st = "panel_run (mount (js ''abc''))
      [(sample_env, ServerEvent (js ''bot_response'') sample_data),
       (sample_env\<lparr>random_id := js ''0.x9''\<rparr>, QuickReply (js ''FAQ'') (js ''/faq''))]"
      and e = sample_env and ev = ToggleFullscreen
      and m = "\<lparr>id' = js ''0.k3'', text = js ''FAQ'', sender = User, timestamp = 5,
          typing = None, buttons = None, quick_replies = None, suggestions = None,
          metadata = None\<rparr>"]
    by auto
qed

section \<open>Quick replies and action buttons\<close>

text \<open>
  The claim C7 as written fails for a reply whose title is blank: the server may send one,
  its chip is rendered with the step \<open>QuickReply\<close> of its title and payload, and that step
  changes nothing, since \<open>sendMessage\<close> returns at its guard.
\<close>

theorem blank_quick_reply_counterexample:
  "chips (renderMessage sample_toLocaleTimeString (last (messages (chatState
      (panel_step sample_env (mount (js ''abc''))
         (ServerEvent (js ''bot_response'') sample_data)))))) =
     Some [(js ''FAQ'', QuickReply (js ''FAQ'') (js ''/faq'')),
           ([], QuickReply [] (js ''/next''))]
   \<and> panel_step sample_env
        (panel_step sample_env (mount (js ''abc''))
           (ServerEvent (js ''bot_response'') sample_data))
        (QuickReply [] (js ''/next''))
     = panel_step sample_env (mount (js ''abc''))
         (ServerEvent (js ''bot_response'') sample_data)"
  by (simp add: panel_step_def dispatch_def listeners_initializeConnection js_def
      on_bot_response_def handleQuickReply_def sendMessage_def falsy_def trim_def
      run_Nil run_Cons apply_addMessage mount_def initial_panel_def sample_data_def
      renderMessage_def reply_button_def)

text \<open>
  C7, amended. The chips and the action buttons of a message are its quick replies and
  its buttons, each with its title as label and with the step that passes its title and
  payload to \<open>sendMessage\<close>. Activating one whose title does not trim to the empty string,
  with the socket reference set, adds a user record whose text is the title at the end of
  the message list, and emits a \<open>message\<close> event whose message is the title and whose
  payload is the payload of the button.
\<close>

theorem quick_reply_sends:
  assumes "trim t \<noteq> []" and "socketRef st \<noteq> None"
  shows "messages (chatState (panel_step e st (QuickReply t p))) =
      messages (chatState st) @
        [\<lparr>id' = random_id e, text = t, sender = User, timestamp = now e, typing = None,
          buttons = None, quick_replies = None, suggestions = None, metadata = None\<rparr>]
    \<and> emitted (panel_step e st (QuickReply t p)) =
      emitted st @
        [(js ''message'', \<lparr>sender = clientId st, message = t, payload = Some p,
           metadata = \<lparr>timestamp = now_iso e, language = currentLanguage (chatState st)\<rparr>\<rparr>)]
    \<and> chips (renderMessage fmt m) =
      map_option (map (\<lambda>r. (button.title r, QuickReply (button.title r) (button.payload r))))
        (Message.quick_replies m)
    \<and> actions (renderMessage fmt m) =
      map_option (map (\<lambda>r. (button.title r, QuickReply (button.title r) (button.payload r))))
        (Message.buttons m)"
proof -
  have fn: "reply_button = (\<lambda>r. (button.title r, QuickReply (button.title r) (button.payload r)))"
    by (rule ext) (simp add: reply_button_def)
  show ?thesis
    using assms
    by (simp add: panel_step_def handleQuickReply_def sendMessage_def falsy_def
        Option.is_none_def run_Nil run_Cons apply_addMessage renderMessage_def fn)
qed

theorem quick_reply_sends_witness:
  "trim (js ''FAQ'') \<noteq> [] \<and> socketRef (mount (js ''abc'') :: unit panel) \<noteq> None
   \<and> messages (chatState (panel_step sample_env (mount (js ''abc'') :: unit panel)
        (QuickReply (js ''FAQ'') (js ''/faq'')))) =
       [\<lparr>id' = js ''0.k3'', text = js ''FAQ'', sender = User, timestamp = 5, typing = None,
         buttons = None, quick_replies = None, suggestions = None, metadata = None\<rparr>]
   \<and> emitted (panel_step sample_env (mount (js ''abc'') :: unit panel)
        (QuickReply (js ''FAQ'') (js ''/faq''))) =
       [(js ''message'', \<lparr>sender = js ''abc'', message = js ''FAQ'', payload = Some (js ''/faq''),
          metadata = \<lparr>timestamp = js ''1970-01-01T00:00:00.005Z'', language = js ''en''\<rparr>\<rparr>)]"
proof -
  have nonblank: "trim (js ''FAQ'') \<noteq> []"
    by (simp add: trim_def js_def isWhiteSpace_def)
  have socket: "socketRef (mount (js ''abc'') :: unit panel) \<noteq> None"
    by (simp add: mount_def)
  have start: "messages (chatState (mount (js ''abc'') :: unit panel)) = []"
    "emitted (mount (js ''abc'') :: unit panel) = []"
    "clientId (mount (js ''abc'') :: unit panel) = js ''abc''"
    "currentLanguage (chatState (mount (js ''abc'') :: unit panel)) = js ''en''"
    by (simp_all add: mount_def initial_panel_def)
  show ?thesis
    using nonblank socket
      quick_reply_sends [OF nonblank socket, where e = sample_env and p = "js ''/faq''"
        and fmt = sample_toLocaleTimeString
        and m = "\<lparr>id' = js ''0.k3'', text = js ''FAQ'', sender = User, timestamp = 5,
          typing = None, buttons = None, quick_replies = None, suggestions = None,
          metadata = None\<rparr>"]
    by (auto simp: start sample_env_def)
qed

section \<open>The chat slice: messages and history\<close>

lemma chat_reducer_keeps_equal:
  assumes "a \<noteq> ClearMessages" and "a \<noteq> ClearHistory"
    and "chat_State.messages s = conversationHistory s"
  shows "chat_State.messages (chat_reducer s a) = conversationHistory (chat_reducer s a)"
  using assms by (cases a) simp_all

lemma chat_dispatch_all_keeps_equal:
  assumes "ClearMessages \<notin> set acts" and "ClearHistory \<notin> set acts"
    and "chat_State.messages s = conversationHistory s"
  shows "chat_State.messages (chat_dispatch_all s acts) =
     conversationHistory (chat_dispatch_all s acts)"
  using assms
proof (induction acts arbitrary: s)
  case Nil
  then show ?case by (simp add: chat_dispatch_all_def)
next
  case (Cons a acts)
  have "chat_State.messages (chat_reducer s a) = conversationHistory (chat_reducer s a)"
    using Cons.prems by (intro chat_reducer_keeps_equal) auto
  with Cons.IH [of "chat_reducer s a"] Cons.prems show ?case
    by (simp add: chat_dispatch_all_def)
qed

text \<open>
  C9. In the chat slice \<open>addMessage\<close> adds its payload at the end of both \<open>messages\<close> and
  \<open>conversationHistory\<close>; \<open>clearMessages\<close> empties \<open>messages\<close> and leaves the history,
  \<open>clearHistory\<close> empties the history and leaves \<open>messages\<close>; no other action changes
  either. So after any sequence of actions from the initial state that contains neither
  \<open>clearMessages\<close> nor \<open>clearHistory\<close>, the two lists are equal.
\<close>

theorem chat_messages_and_history:
  "chat_State.messages (chat_reducer (s :: 'm chat_State) (AddMessage m)) =
     chat_State.messages s @ [m]
   \<and> conversationHistory (chat_reducer s (AddMessage m)) = conversationHistory s @ [m]
   \<and> chat_State.messages (chat_reducer s ClearMessages) = []
   \<and> conversationHistory (chat_reducer s ClearMessages) = conversationHistory s
   \<and> conversationHistory (chat_reducer s ClearHistory) = []
   \<and> chat_State.messages (chat_reducer s ClearHistory) = chat_State.messages s
   \<and> ((\<forall>m'. a \<noteq> AddMessage m') \<and> a \<noteq> ClearMessages \<longrightarrow>
        chat_State.messages (chat_reducer s a) = chat_State.messages s)
   \<and> ((\<forall>m'. a \<noteq> AddMessage m') \<and> a \<noteq> ClearHistory \<longrightarrow>
        conversationHistory (chat_reducer s a) = conversationHistory s)
   \<and> (ClearMessages \<notin> set acts \<and> ClearHistory \<notin> set acts \<longrightarrow>
        chat_State.messages (chat_dispatch_all (chat_initialState :: 'm chat_State) acts) =
        conversationHistory (chat_dispatch_all (chat_initialState :: 'm chat_State) acts))"
proof -
  have frame_m: "chat_State.messages (chat_reducer s a) = chat_State.messages s"
    if "\<forall>m'. a \<noteq> AddMessage m'" "a \<noteq> ClearMessages"
    using that by (cases a) simp_all
  have frame_h: "conversationHistory (chat_reducer s a) = conversationHistory s"
    if "\<forall>m'. a \<noteq> AddMessage m'" "a \<noteq> ClearHistory"
    using that by (cases a) simp_all
  have init: "chat_State.messages (chat_initialState :: 'm chat_State) =
      conversationHistory (chat_initialState :: 'm chat_State)"
    by (simp add: chat_initialState_def)
  have seq: "chat_State.messages (chat_dispatch_all chat_initialState acts) =
        conversationHistory (chat_dispatch_all (chat_initialState :: 'm chat_State) acts)"
    if "ClearMessages \<notin> set acts" "ClearHistory \<notin> set acts"
    using that init by (rule chat_dispatch_all_keeps_equal)
  show ?thesis
    using frame_m frame_h seq by simp
qed

theorem chat_messages_and_history_witness:
  "chat_State.messages
     (chat_dispatch_all chat_initialState [AddMessage sample_message, SetTyping True])
   = conversationHistory
     (chat_dispatch_all chat_initialState [AddMessage sample_message, SetTyping True])
   \<and> chat_State.messages
     (chat_dispatch_all chat_initialState [AddMessage sample_message, SetTyping True])
   = [sample_message]
   \<and> chat_State.messages (chat_reducer (chat_reducer chat_initialState
        (AddMessage sample_message)) (SetTyping True)) = [sample_message]
   \<and> conversationHistory (chat_reducer (chat_reducer chat_initialState
        (AddMessage sample_message)) ClearMessages) = [sample_message]"
proof -
  have start: "chat_State.messages (chat_initialState :: unit chat_State) = []"
    "conversationHistory (chat_initialState :: unit chat_State) = []"
    by (simp_all add: chat_initialState_def)
  show ?thesis
    using chat_messages_and_history [where a = "SetTyping True"
        and s = "chat_reducer chat_initialState (AddMessage sample_message)"
        and m = sample_message
        and acts = "[AddMessage sample_message, SetTyping True]"]
      chat_messages_and_history [where s = "chat_initialState :: unit chat_State"
        and m = sample_message and a = "SetTyping True" and acts = "[]"]
    by (auto simp: start chat_dispatch_all_def)
qed

section \<open>The courses slice: filtering\<close>

text \<open>
  C10. After \<open>filterCourses\<close> the filtered list holds, in the order of \<open>courses\<close>, exactly
  the courses whose price lies within the price range, ends included, and that match each
  of the category, level and search filters that is not empty, and \<open>pagination.total\<close> is
  its length. With the other three filters empty the price range is still applied.
  \<open>clearFilters\<close> sets the filtered list to the whole of \<open>courses\<close>, whatever the prices.
\<close>

theorem filterCourses_selects:
  "filteredCourses (filterCourses toLowerCase s) =
     filter (course_matches toLowerCase (filters s)) (courses s)
   \<and> subseq (filteredCourses (filterCourses toLowerCase s)) (courses s)
   \<and> total (pagination (filterCourses toLowerCase s)) =
       int (length (filteredCourses (filterCourses toLowerCase s)))
   \<and> (filters.category (filters s) = [] \<and> filters.level (filters s) = []
        \<and> searchQuery (filters s) = [] \<longrightarrow>
      filteredCourses (filterCourses toLowerCase s) =
        filter (in_priceRange (filters s)) (courses s))
   \<and> filteredCourses (clearFilters s') = courses s'"
proof -
  have sel: "filteredCourses (filterCourses toLowerCase s) =
     filter (course_matches toLowerCase (filters s)) (courses s)"
    by (auto simp: filterCourses_def Let_def falsy_def str_includes_def course_matches_def
        in_priceRange_def intro!: filter_cong)
  have only_price: "filter (course_matches toLowerCase (filters s)) (courses s) =
        filter (in_priceRange (filters s)) (courses s)"
    if "filters.category (filters s) = []" "filters.level (filters s) = []"
      "searchQuery (filters s) = []"
    using that by (auto simp: course_matches_def intro!: filter_cong)
  have tot: "total (pagination (filterCourses toLowerCase s)) =
       int (length (filteredCourses (filterCourses toLowerCase s)))"
    by (simp add: filterCourses_def Let_def)
  have clr: "filteredCourses (clearFilters s') = courses s'"
    by (simp add: clearFilters_def)
  show ?thesis
    using sel only_price tot clr by (simp add: subseq_filter_left)
qed

theorem filterCourses_selects_witness:
  "filteredCourses (filterCourses sample_toLowerCase
      ((setCourses sample_courses courses_initialState)
         \<lparr>filters := \<lparr>filters.category = js ''math'', level = js ''beginner'',
                       priceRange = (0, 1000), searchQuery = js ''ALG''\<rparr>\<rparr>))
     = [sample_course (js ''Algebra'') (js ''math'') beginner 50]
   \<and> total (pagination (filterCourses sample_toLowerCase
      ((setCourses sample_courses courses_initialState)
         \<lparr>filters := \<lparr>filters.category = js ''math'', level = js ''beginner'',
                       priceRange = (0, 1000), searchQuery = js ''ALG''\<rparr>\<rparr>))) = 1
   \<and> filteredCourses (filterCourses sample_toLowerCase
        (setCourses sample_courses courses_initialState))
     = [sample_course (js ''Algebra'') (js ''math'') beginner 50,
        sample_course (js ''Drawing'') (js ''art'') beginner 50]
   \<and> filteredCourses (clearFilters (setCourses sample_courses courses_initialState))
     = [sample_course (js ''Algebra'') (js ''math'') beginner 50,
        sample_course (js ''Algebra II'') (js ''math'') beginner 2000,
        sample_course (js ''Drawing'') (js ''art'') beginner 50]"
proof -
  let ?plain = "setCourses sample_courses courses_initialState"
  let ?s = "?plain\<lparr>filters := \<lparr>filters.category = js ''math'', level = js ''beginner'',
                       priceRange = (0, 1000), searchQuery = js ''ALG''\<rparr>\<rparr>"
  have cs: "courses ?s = sample_courses" "courses ?plain = sample_courses"
    by (simp_all add: setCourses_def)
  have fs: "filters ?s = \<lparr>filters.category = js ''math'', level = js ''beginner'',
                       priceRange = (0, 1000), searchQuery = js ''ALG''\<rparr>"
    "filters ?plain = \<lparr>filters.category = [], level = [], priceRange = (0, 1000),
        searchQuery = []\<rparr>"
    by (simp_all add: setCourses_def courses_initialState_def)
  have empty: "filters.category (filters ?plain) = [] \<and> filters.level (filters ?plain) = []
        \<and> searchQuery (filters ?plain) = []"
    by (simp add: fs)
  have picked: "filter (course_matches sample_toLowerCase (filters ?s)) sample_courses
      = [sample_course (js ''Algebra'') (js ''math'') beginner 50]"
    unfolding fs
    by (simp add: sample_courses_def sample_course_def course_matches_def
        in_priceRange_def sample_toLowerCase_def js_def sublist_code)
  have priced: "filter (in_priceRange (filters ?plain)) sample_courses
      = [sample_course (js ''Algebra'') (js ''math'') beginner 50,
         sample_course (js ''Drawing'') (js ''art'') beginner 50]"
    unfolding fs
    by (simp add: sample_courses_def sample_course_def in_priceRange_def)
  have all: "sample_courses = [sample_course (js ''Algebra'') (js ''math'') beginner 50,
        sample_course (js ''Algebra II'') (js ''math'') beginner 2000,
        sample_course (js ''Drawing'') (js ''art'') beginner 50]"
    by (simp add: sample_courses_def)
  show ?thesis
    using empty
      filterCourses_selects [where toLowerCase = sample_toLowerCase and s = ?s and s' = ?plain]
      filterCourses_selects [where toLowerCase = sample_toLowerCase and s = ?plain
        and s' = ?plain]
    unfolding cs picked priced
    by (auto simp: all [symmetric])
qed

end
